theory Spec2Isabelle
  imports Complex_Main "HOL-Library.Word" "HOL-Library.Log_Nat"
begin

section \<open>The arithmetic of \<^verbatim>\<open>double\<close>\<close>

text \<open>
  \<^verbatim>\<open>rideshre.cpp\<close> computes every fare in \<^verbatim>\<open>double\<close>. A \<^verbatim>\<open>double\<close> is an IEEE 754
  binary64 value: a sign bit, an 11-bit biased exponent and a 52-bit fraction. The three
  fields are kept as they are stored, so every value of the type is a \<^verbatim>\<open>double\<close> and every
  \<^verbatim>\<open>double\<close> is a value of the type:
  \<^item> exponent 0: a zero or a subnormal number, \<open>fraction * 2^-1074\<close>;
  \<^item> exponent 1 to 2046: a normal number, \<open>(2^52 + fraction) * 2^(exponent - 1075)\<close>;
  \<^item> exponent 2047: an infinity (fraction 0) or a NaN (any other fraction).

  The operations the program uses are \<^verbatim>\<open>*\<close>, \<^verbatim>\<open>+\<close>, \<^verbatim>\<open><\<close> (inside \<^verbatim>\<open>std::max\<close>) and decimal
  literals. Products, sums and literals are rounded to the nearest \<^verbatim>\<open>double\<close>, ties to the
  even fraction (the default rounding mode, which the program never changes). The payload
  of a NaN is not tracked: an operation that yields a NaN yields \<open>quiet_NaN\<close>.
\<close>

datatype double = Double (sign_bit: bool) (exponent: "11 word") (fraction: "52 word")

definition pow2 :: "int \<Rightarrow> real" where
  "pow2 k = (if 0 \<le> k then 2 ^ nat k else 1 / 2 ^ nat (- k))"

definition is_nan :: "double \<Rightarrow> bool" where
  "is_nan d = (exponent d = 2047 \<and> fraction d \<noteq> 0)"

definition is_inf :: "double \<Rightarrow> bool" where
  "is_inf d = (exponent d = 2047 \<and> fraction d = 0)"

definition is_zero :: "double \<Rightarrow> bool" where
  "is_zero d = (exponent d = 0 \<and> fraction d = 0)"

definition is_finite :: "double \<Rightarrow> bool" where
  "is_finite d = (exponent d \<noteq> 2047)"

definition quiet_NaN :: double where
  "quiet_NaN = Double False 2047 2251799813685248"

definition infinity :: "bool \<Rightarrow> double" where
  "infinity s = Double s 2047 0"

text \<open>The magnitude and the signed value of a finite \<^verbatim>\<open>double\<close>.\<close>

definition magnitude :: "double \<Rightarrow> real" where
  "magnitude d =
     (if exponent d = 0 then of_int (uint (fraction d)) * pow2 (- 1074)
      else of_int (2 ^ 52 + uint (fraction d)) * pow2 (uint (exponent d) - 1075))"

definition valof :: "double \<Rightarrow> real" where
  "valof d = (if sign_bit d then - magnitude d else magnitude d)"

text \<open>
  Rounding a positive real \<open>x\<close> to the nearest \<^verbatim>\<open>double\<close>: \<open>ilog2 x\<close> is the position of
  the leading bit of \<open>x\<close>, raised to \<open>-1022\<close> in the subnormal range; the unit in the last
  place is \<open>2^(e - 52)\<close>; \<open>x\<close> is rounded to a whole number \<open>n\<close> of units, a tie going to the
  even \<open>n\<close>. \<open>n\<close> below \<open>2^52\<close> is a subnormal fraction, \<open>n = 2^53\<close> is the first number of
  the next binade, and a result past the largest exponent is an infinity.
\<close>

definition round_half_even :: "real \<Rightarrow> int" where
  "round_half_even q =
     (let f = \<lfloor>q\<rfloor>; r = q - of_int f
      in if r < 1 / 2 then f else if 1 / 2 < r then f + 1 else if even f then f else f + 1)"

definition ilog2 :: "real \<Rightarrow> int" where
  "ilog2 x = (if 1 \<le> x then bitlen \<lfloor>x\<rfloor> - 1 else - bitlen (\<lceil>1 / x\<rceil> - 1))"

definition round_to_double :: "bool \<Rightarrow> real \<Rightarrow> double" where
  "round_to_double s x =
     (if x = 0 then Double s 0 0
      else
        let e = max (ilog2 x) (- 1022);
            n = round_half_even (x / pow2 (e - 52))
        in if n < 2 ^ 52 then Double s 0 (word_of_int n)
           else if n = 2 ^ 53 then
             (if 1023 < e + 1 then infinity s else Double s (word_of_int (e + 1024)) 0)
           else if 1023 < e then infinity s
           else Double s (word_of_int (e + 1023)) (word_of_int (n - 2 ^ 52)))"

text \<open>A decimal literal of the source denotes the \<^verbatim>\<open>double\<close> nearest to it.\<close>

definition double_of_real :: "real \<Rightarrow> double" where
  "double_of_real x = round_to_double (x < 0) \<bar>x\<bar>"

text \<open>\<^verbatim>\<open>a * b\<close> on \<^verbatim>\<open>double\<close>.\<close>

definition dmul :: "double \<Rightarrow> double \<Rightarrow> double" where
  "dmul a b =
     (if is_nan a \<or> is_nan b then quiet_NaN
      else if is_inf a \<or> is_inf b then
        (if is_zero a \<or> is_zero b then quiet_NaN else infinity (sign_bit a \<noteq> sign_bit b))
      else round_to_double (sign_bit a \<noteq> sign_bit b) (magnitude a * magnitude b))"

text \<open>\<^verbatim>\<open>a + b\<close> on \<^verbatim>\<open>double\<close>. An exact sum of zero is \<open>+0\<close> unless both operands are \<open>-0\<close>.\<close>

definition dadd :: "double \<Rightarrow> double \<Rightarrow> double" where
  "dadd a b =
     (if is_nan a \<or> is_nan b then quiet_NaN
      else if is_inf a then (if is_inf b \<and> sign_bit a \<noteq> sign_bit b then quiet_NaN else a)
      else if is_inf b then b
      else
        let v = valof a + valof b
        in if v = 0 then Double (sign_bit a \<and> sign_bit b) 0 0
           else round_to_double (v < 0) \<bar>v\<bar>)"

text \<open>\<^verbatim>\<open>a < b\<close> and \<^verbatim>\<open>a <= b\<close> on \<^verbatim>\<open>double\<close>: false as soon as an operand is a NaN.\<close>

definition dlt :: "double \<Rightarrow> double \<Rightarrow> bool" where
  "dlt a b =
     (if is_nan a \<or> is_nan b then False
      else if is_inf a then sign_bit a \<and> \<not> (is_inf b \<and> sign_bit b)
      else if is_inf b then \<not> sign_bit b
      else valof a < valof b)"

definition dle :: "double \<Rightarrow> double \<Rightarrow> bool" where
  "dle a b =
     (if is_nan a \<or> is_nan b then False
      else if is_inf a then sign_bit a \<or> (is_inf b \<and> \<not> sign_bit b)
      else if is_inf b then \<not> sign_bit b
      else valof a \<le> valof b)"

text \<open>\<^verbatim>\<open>std::max(a, b)\<close> is \<^verbatim>\<open>(a < b) ? b : a\<close>.\<close>

definition dmax :: "double \<Rightarrow> double \<Rightarrow> double" where
  "dmax a b = (if dlt a b then b else a)"

section \<open>Rides\<close>

text \<open>
  The data members of \<^verbatim>\<open>class Ride\<close>. \<^verbatim>\<open>rideID\<close> is an \<^verbatim>\<open>int\<close>: a 32-bit word, read as a
  signed number by \<open>sint\<close>.
\<close>

record ride =
  rideID :: "32 word"
  pickupLocation :: string
  dropoffLocation :: string
  distanceMiles :: double

text \<open>
  An object of the hierarchy, by its dynamic class. \<^verbatim>\<open>StandardRide\<close> adds no member to its
  \<^verbatim>\<open>Ride\<close> base; \<^verbatim>\<open>PremiumRide\<close> adds \<^verbatim>\<open>luxuryMultiplier\<close>.
\<close>

datatype ride_object =
    Ride_object ride
  | StandardRide_object ride
  | PremiumRide_object ride (luxuryMultiplier: double)

fun base :: "ride_object \<Rightarrow> ride" where
  "base (Ride_object r) = r"
| "base (StandardRide_object r) = r"
| "base (PremiumRide_object r m) = r"

definition getRideID :: "ride_object \<Rightarrow> 32 word" where
  "getRideID obj = rideID (base obj)"

definition getPickup :: "ride_object \<Rightarrow> string" where
  "getPickup obj = pickupLocation (base obj)"

definition getDropoff :: "ride_object \<Rightarrow> string" where
  "getDropoff obj = dropoffLocation (base obj)"

definition getDistance :: "ride_object \<Rightarrow> double" where
  "getDistance obj = distanceMiles (base obj)"

text \<open>
  The constructors. \<^verbatim>\<open>Ride::Ride\<close> reads the static counter \<^verbatim>\<open>nextID\<close> and increments it
  (\<^verbatim>\<open>rideID(nextID++)\<close>): it takes the counter and returns the new one with the object. The
  increment is that of a 32-bit word; at \<^verbatim>\<open>INT_MAX\<close> the C++ standard leaves the result of
  \<^verbatim>\<open>nextID++\<close> undefined, and the word wraps to \<^verbatim>\<open>INT_MIN\<close> as two's complement hardware does.
  No constructor inspects its arguments.
\<close>

definition Ride_ctor :: "string \<Rightarrow> string \<Rightarrow> double \<Rightarrow> 32 word \<Rightarrow> ride \<times> 32 word" where
  "Ride_ctor pickup dropoff distance counter =
     (\<lparr>rideID = counter, pickupLocation = pickup, dropoffLocation = dropoff,
       distanceMiles = distance\<rparr>,
      counter + 1)"

definition BaseRide_ctor ::
  "string \<Rightarrow> string \<Rightarrow> double \<Rightarrow> 32 word \<Rightarrow> ride_object \<times> 32 word" where
  "BaseRide_ctor pickup dropoff distance counter =
     (let (r, n) = Ride_ctor pickup dropoff distance counter in (Ride_object r, n))"

definition StandardRide_ctor ::
  "string \<Rightarrow> string \<Rightarrow> double \<Rightarrow> 32 word \<Rightarrow> ride_object \<times> 32 word" where
  "StandardRide_ctor pickup dropoff distance counter =
     (let (r, n) = Ride_ctor pickup dropoff distance counter in (StandardRide_object r, n))"

text \<open>
  \<^verbatim>\<open>PremiumRide\<close>'s last parameter has the default argument \<^verbatim>\<open>2.0\<close>: \<open>None\<close> is a call that
  leaves it out.
\<close>

definition PremiumRide_ctor ::
  "string \<Rightarrow> string \<Rightarrow> double \<Rightarrow> double option \<Rightarrow> 32 word \<Rightarrow> ride_object \<times> 32 word" where
  "PremiumRide_ctor pickup dropoff distance multiplier counter =
     (let (r, n) = Ride_ctor pickup dropoff distance counter
      in (PremiumRide_object r (case multiplier of None \<Rightarrow> double_of_real 2 | Some m \<Rightarrow> m), n))"

text \<open>The three bodies of the virtual function \<^verbatim>\<open>fare()\<close>, and its dispatch.\<close>

definition Ride_fare :: "ride \<Rightarrow> double" where
  "Ride_fare r =
     (let basePerMile = double_of_real 1;
          rawFare = dmul basePerMile (distanceMiles r)
      in dmax (double_of_real 2) rawFare)"

definition StandardRide_fare :: "ride \<Rightarrow> double" where
  "StandardRide_fare r =
     (let perMile = double_of_real (15 / 10);
          raw = dmul perMile (distanceMiles r);
          bookingFee = double_of_real 1
      in dmax (double_of_real 3) (dadd raw bookingFee))"

definition PremiumRide_fare :: "ride \<Rightarrow> double \<Rightarrow> double" where
  "PremiumRide_fare r multiplier =
     (let basePerMile = double_of_real (25 / 10);
          raw = dmul (dmul basePerMile (distanceMiles r)) multiplier;
          surge = double_of_real 2
      in dmax (double_of_real 10) (dadd raw surge))"

fun fare :: "ride_object \<Rightarrow> double" where
  "fare (Ride_object r) = Ride_fare r"
| "fare (StandardRide_object r) = StandardRide_fare r"
| "fare (PremiumRide_object r m) = PremiumRide_fare r m"

text \<open>
  \<^verbatim>\<open>rideDetails()\<close> writes one line to \<^verbatim>\<open>std::cout\<close>. The line is kept as the values it
  shows, in order; the subclasses put their tag in front of the base class's line.
\<close>

record detail_line =
  tag :: string
  shown_id :: "32 word"
  shown_from :: string
  shown_to :: string
  shown_distance :: double
  shown_fare :: double

definition Ride_rideDetails :: "ride_object \<Rightarrow> detail_line" where
  "Ride_rideDetails obj =
     \<lparr>tag = [], shown_id = rideID (base obj), shown_from = pickupLocation (base obj),
      shown_to = dropoffLocation (base obj), shown_distance = distanceMiles (base obj),
      shown_fare = fare obj\<rparr>"

fun rideDetails :: "ride_object \<Rightarrow> detail_line" where
  "rideDetails (Ride_object r) = Ride_rideDetails (Ride_object r)"
| "rideDetails (StandardRide_object r) =
     (Ride_rideDetails (StandardRide_object r))\<lparr>tag := ''[Standard] ''\<rparr>"
| "rideDetails (PremiumRide_object r m) =
     (Ride_rideDetails (PremiumRide_object r m))\<lparr>tag := ''[Premium]  ''\<rparr>"

section \<open>Shared ownership\<close>

text \<open>
  Rides live on the free store and are held through \<^verbatim>\<open>std::shared_ptr<Ride>\<close>. The state of
  the process is the static counter \<^verbatim>\<open>Ride::nextID\<close> and the store: a map from addresses to
  cells, a cell holding the object and the number of \<^verbatim>\<open>shared_ptr\<close>s that own it. A
  \<^verbatim>\<open>shared_ptr\<close> is an address, or \<open>None\<close> when it is null. \<open>fresh\<close> is the address the next
  allocation returns; allocation failure is not modelled.
\<close>

record cell =
  object :: ride_object
  use_count :: nat

type_synonym ride_ptr = "nat option"

record world =
  nextID :: "32 word"
  heap :: "nat \<rightharpoonup> cell"
  fresh :: nat

text \<open>\<^verbatim>\<open>int Ride::nextID = 1;\<close> and an empty store.\<close>

definition initial_world :: world where
  "initial_world = \<lparr>nextID = 1, heap = Map.empty, fresh = 0\<rparr>"

definition allocate :: "ride_object \<Rightarrow> world \<Rightarrow> ride_ptr \<times> world" where
  "allocate obj w =
     (Some (fresh w),
      w\<lparr>heap := (heap w)(fresh w \<mapsto> \<lparr>object = obj, use_count = 1\<rparr>), fresh := fresh w + 1\<rparr>)"

text \<open>
  \<^verbatim>\<open>std::make_shared<T>(...)\<close> runs the constructor of \<^verbatim>\<open>T\<close> and returns the one
  \<^verbatim>\<open>shared_ptr\<close> that owns the new object.
\<close>

definition make_shared_Ride :: "string \<Rightarrow> string \<Rightarrow> double \<Rightarrow> world \<Rightarrow> ride_ptr \<times> world" where
  "make_shared_Ride pickup dropoff distance w =
     (let (obj, n) = BaseRide_ctor pickup dropoff distance (nextID w)
      in allocate obj (w\<lparr>nextID := n\<rparr>))"

definition make_shared_StandardRide ::
  "string \<Rightarrow> string \<Rightarrow> double \<Rightarrow> world \<Rightarrow> ride_ptr \<times> world" where
  "make_shared_StandardRide pickup dropoff distance w =
     (let (obj, n) = StandardRide_ctor pickup dropoff distance (nextID w)
      in allocate obj (w\<lparr>nextID := n\<rparr>))"

definition make_shared_PremiumRide ::
  "string \<Rightarrow> string \<Rightarrow> double \<Rightarrow> double option \<Rightarrow> world \<Rightarrow> ride_ptr \<times> world" where
  "make_shared_PremiumRide pickup dropoff distance multiplier w =
     (let (obj, n) = PremiumRide_ctor pickup dropoff distance multiplier (nextID w)
      in allocate obj (w\<lparr>nextID := n\<rparr>))"

text \<open>
  Copying a \<^verbatim>\<open>shared_ptr\<close> adds an owner; destroying one removes an owner and deletes the
  object with its last owner. A null pointer owns nothing. A non-null \<^verbatim>\<open>shared_ptr\<close> always
  points into the store (\<open>valid_ptr\<close>); the two functions leave the store as it is on an
  address that is not in it.
\<close>

definition valid_ptr :: "world \<Rightarrow> ride_ptr \<Rightarrow> bool" where
  "valid_ptr w p = (case p of None \<Rightarrow> True | Some a \<Rightarrow> heap w a \<noteq> None)"

definition copy_ptr :: "ride_ptr \<Rightarrow> world \<Rightarrow> world" where
  "copy_ptr p w =
     (case p of
        None \<Rightarrow> w
      | Some a \<Rightarrow>
          (case heap w a of
             None \<Rightarrow> w
           | Some c \<Rightarrow> w\<lparr>heap := (heap w)(a \<mapsto> c\<lparr>use_count := use_count c + 1\<rparr>)\<rparr>))"

definition destroy_ptr :: "ride_ptr \<Rightarrow> world \<Rightarrow> world" where
  "destroy_ptr p w =
     (case p of
        None \<Rightarrow> w
      | Some a \<Rightarrow>
          (case heap w a of
             None \<Rightarrow> w
           | Some c \<Rightarrow>
               if use_count c \<le> 1 then w\<lparr>heap := (heap w)(a := None)\<rparr>
               else w\<lparr>heap := (heap w)(a \<mapsto> c\<lparr>use_count := use_count c - 1\<rparr>)\<rparr>))"

text \<open>Creating rides one after the other, of any class.\<close>

datatype creation =
    NewRide (pickup_of: string) (dropoff_of: string) (distance_of: double)
  | NewStandardRide (pickup_of: string) (dropoff_of: string) (distance_of: double)
  | NewPremiumRide (pickup_of: string) (dropoff_of: string) (distance_of: double)
      (multiplier_of: "double option")

fun create :: "creation \<Rightarrow> world \<Rightarrow> ride_ptr \<times> world" where
  "create (NewRide pickup dropoff distance) w = make_shared_Ride pickup dropoff distance w"
| "create (NewStandardRide pickup dropoff distance) w =
     make_shared_StandardRide pickup dropoff distance w"
| "create (NewPremiumRide pickup dropoff distance multiplier) w =
     make_shared_PremiumRide pickup dropoff distance multiplier w"

fun create_all :: "creation list \<Rightarrow> world \<Rightarrow> ride_ptr list \<times> world" where
  "create_all [] w = ([], w)"
| "create_all (c # cs) w =
     (let (p, w1) = create c w; (ps, w2) = create_all cs w1 in (p # ps, w2))"

text \<open>
  The object a pointer of the store points to, and the \<^verbatim>\<open>int\<close> that \<^verbatim>\<open>getRideID()\<close> returns
  through a pointer.
\<close>

definition deref :: "world \<Rightarrow> ride_ptr \<Rightarrow> ride_object option" where
  "deref w p = (case p of None \<Rightarrow> None | Some a \<Rightarrow> map_option object (heap w a))"

definition id_of :: "world \<Rightarrow> ride_ptr \<Rightarrow> int option" where
  "id_of w p = map_option (\<lambda>obj. sint (getRideID obj)) (deref w p)"

text \<open>
  The allocator hands out addresses in order, so in every state the program reaches the
  cells of the store lie below \<open>fresh\<close>.
\<close>

definition wf_world :: "world \<Rightarrow> bool" where
  "wf_world w = (\<forall>a. heap w a \<noteq> None \<longrightarrow> a < fresh w)"

text \<open>The four rides that \<^verbatim>\<open>main()\<close> creates, in its order.\<close>

definition demo_rides :: "creation list" where
  "demo_rides =
     [NewStandardRide ''Downtown'' ''Airport'' (double_of_real (184 / 10)),
      NewPremiumRide ''Mall'' ''University'' (double_of_real (72 / 10)) (Some (double_of_real (15 / 10))),
      NewStandardRide ''Home'' ''Office'' (double_of_real (45 / 10)),
      NewPremiumRide ''Hotel'' ''Convention Center'' (double_of_real 12) None]"

text \<open>Three standard rides, of 1.23, 1.43 and 1.8 miles.\<close>

definition three_rides :: "creation list" where
  "three_rides =
     [NewStandardRide ''Downtown'' ''Airport'' (double_of_real (123 / 100)),
      NewStandardRide ''Home'' ''Office'' (double_of_real (143 / 100)),
      NewStandardRide ''Mall'' ''University'' (double_of_real (18 / 10))]"

section \<open>Drivers\<close>

text \<open>
  \<^verbatim>\<open>class Driver\<close>. \<^verbatim>\<open>assignedRides\<close> is a \<^verbatim>\<open>std::vector\<close> of \<^verbatim>\<open>shared_ptr\<close>s; its \<^verbatim>\<open>size()\<close> is
  the length of the list (a vector cannot hold \<open>2^64\<close> elements, so \<^verbatim>\<open>size_t\<close> never wraps).
\<close>

record driver =
  driverID :: "32 word"
  name :: string
  rating :: double
  assignedRides :: "ride_ptr list"

definition Driver_ctor :: "32 word \<Rightarrow> string \<Rightarrow> double option \<Rightarrow> driver" where
  "Driver_ctor ident n r =
     \<lparr>driverID = ident, name = n,
      rating = (case r of None \<Rightarrow> double_of_real 5 | Some x \<Rightarrow> x),
      assignedRides = []\<rparr>"

text \<open>\<^verbatim>\<open>assignedRides.push_back(ride)\<close> stores a copy of \<^verbatim>\<open>ride\<close> at the end.\<close>

definition addRide :: "driver \<Rightarrow> ride_ptr \<Rightarrow> world \<Rightarrow> driver \<times> world" where
  "addRide d ride w = (d\<lparr>assignedRides := assignedRides d @ [ride]\<rparr>, copy_ptr ride w)"

text \<open>A sequence of \<^verbatim>\<open>addRide\<close> calls on one driver.\<close>

fun addRides :: "driver \<Rightarrow> ride_ptr list \<Rightarrow> world \<Rightarrow> driver \<times> world" where
  "addRides d [] w = (d, w)"
| "addRides d (ride # rides) w = (let (d1, w1) = addRide d ride w in addRides d1 rides w1)"

definition getAssignedCount :: "driver \<Rightarrow> nat" where
  "getAssignedCount d = length (assignedRides d)"

text \<open>\<^verbatim>\<open>assignedRides.clear()\<close> destroys every element of the vector.\<close>

definition clearAssignedRides :: "driver \<Rightarrow> world \<Rightarrow> driver \<times> world" where
  "clearAssignedRides d w = (d\<lparr>assignedRides := []\<rparr>, fold destroy_ptr (assignedRides d) w)"

text \<open>
  \<^verbatim>\<open>getDriverInfo()\<close> prints the identity line, the header \<^verbatim>\<open>Assigned rides (n):\<close>, one line
  per non-null ride and the total. The loop carries the lines printed so far and the local
  \<^verbatim>\<open>totalEarnings\<close>, which starts at \<^verbatim>\<open>0.0\<close>. Dereferencing a pointer that is not in the store has
  no defined result: the loop then returns \<open>None\<close>.
\<close>

record driver_info =
  header_id :: "32 word"
  header_name :: string
  header_rating :: double
  header_count :: nat
  details :: "detail_line list"
  totalEarnings :: double

fun summary_loop ::
  "ride_ptr list \<Rightarrow> world \<Rightarrow> detail_line list \<times> double \<Rightarrow> (detail_line list \<times> double) option"
where
  "summary_loop [] w acc = Some acc"
| "summary_loop (None # rs) w acc = summary_loop rs w acc"
| "summary_loop (Some a # rs) w (printed, earnings) =
     (case heap w a of
        None \<Rightarrow> None
      | Some c \<Rightarrow>
          summary_loop rs w
            (printed @ [rideDetails (object c)], dadd earnings (fare (object c))))"

definition getDriverInfo :: "driver \<Rightarrow> world \<Rightarrow> driver_info option" where
  "getDriverInfo d w =
     (case summary_loop (assignedRides d) w ([], double_of_real 0) of
        None \<Rightarrow> None
      | Some (printed, earnings) \<Rightarrow>
          Some \<lparr>header_id = driverID d, header_name = name d, header_rating = rating d,
                header_count = length (assignedRides d), details = printed,
                totalEarnings = earnings\<rparr>)"

section \<open>Facts about rounding\<close>

text \<open>
  \<open>ilog2 x\<close> is the exponent \<open>k\<close> with \<open>2^k \<le> x < 2^(k + 1)\<close>, and rounding the magnitude of
  a finite \<^verbatim>\<open>double\<close> gives the \<^verbatim>\<open>double\<close> back: \<open>round_to_double\<close> leaves every
  representable number as it is.
\<close>

lemma pow2_pos: "0 < pow2 k"
  by (simp add: pow2_def)

lemma pow2_nat: "pow2 (int n) = 2 ^ n"
  by (simp add: pow2_def)

lemma pow2_neg_nat: "pow2 (- int n) = 1 / 2 ^ n"
  by (simp add: pow2_def)

lemma pow2_powr: "pow2 k = 2 powr (real_of_int k)"
proof (cases "0 \<le> k")
  case True
  then show ?thesis by (simp add: pow2_def powr_realpow [symmetric])
next
  case False
  define n where "n = nat (- k)"
  with False have k: "k = - int n" by simp
  have "2 powr (real_of_int k) = 1 / 2 powr (real n)"
    unfolding k by (simp add: powr_minus_divide)
  also have "\<dots> = 1 / 2 ^ n" by (simp add: powr_realpow)
  finally show ?thesis unfolding k by (simp add: pow2_neg_nat)
qed

lemma pow2_add: "pow2 (a + b) = pow2 a * pow2 b"
  by (simp add: pow2_powr powr_add)

lemma pow2_less_iff: "pow2 a < pow2 b \<longleftrightarrow> a < b"
  by (simp add: pow2_powr)

lemma pow2_le_iff: "pow2 a \<le> pow2 b \<longleftrightarrow> a \<le> b"
  by (simp add: pow2_powr)

lemma round_half_even_of_int: "round_half_even (of_int n) = n"
  by (simp add: round_half_even_def)

lemma bitlen_eqI:
  assumes "2 ^ j \<le> m" and "m < 2 ^ (j + 1)"
  shows "bitlen m = int j + 1"
proof -
  have "bitlen m \<le> int j + 1"
    using assms(2) by (simp add: bitlen_le_iff_power nat_add_distrib)
  moreover have "int j + 1 \<le> bitlen m"
    using assms(1) by (simp add: bitlen_ge_iff_power nat_add_distrib)
  ultimately show ?thesis by simp
qed

lemma ilog2_unique:
  assumes lo: "pow2 k \<le> x" and hi: "x < pow2 (k + 1)"
  shows "ilog2 x = k"
proof (cases "0 \<le> k")
  case True
  define j where "j = nat k"
  with True have k: "k = int j" by simp
  from lo have lo': "2 ^ j \<le> x" unfolding k by (simp add: pow2_nat)
  from hi have "x < pow2 (int (j + 1))" unfolding k by (simp add: add.commute)
  then have hi': "x < 2 ^ (j + 1)" unfolding pow2_nat .
  have one: "1 \<le> x" using lo' one_le_power [of "2::real" j] by linarith
  have "(2::int) ^ j \<le> \<lfloor>x\<rfloor>"
    using lo' by (simp add: le_floor_iff)
  moreover have "\<lfloor>x\<rfloor> < 2 ^ (j + 1)"
    using hi' by (simp add: floor_less_iff)
  ultimately have "bitlen \<lfloor>x\<rfloor> = int j + 1" by (rule bitlen_eqI)
  with one show ?thesis by (simp add: ilog2_def k)
next
  case False
  define j where "j = nat (- k - 1)"
  with False have k: "k = - int (j + 1)" by simp
  have k1: "k + 1 = - int j" using k by simp
  from hi have hi': "x < 1 / 2 ^ j" unfolding k1 pow2_neg_nat .
  from lo have lo': "1 / 2 ^ (j + 1) \<le> x" unfolding k pow2_neg_nat .
  have xpos: "0 < x" using lo' by (smt (verit) divide_pos_pos zero_less_power zero_less_numeral zero_less_one)
  have "1 / 2 ^ j \<le> (1::real)" by (simp add: divide_le_eq)
  with hi' have less1: "\<not> 1 \<le> x" by linarith
  have a: "2 ^ j < 1 / x"
    using hi' xpos by (simp add: field_simps)
  have b: "1 / x \<le> 2 ^ (j + 1)"
    using lo' xpos by (simp add: field_simps)
  have "(2::int) ^ j < \<lceil>1 / x\<rceil>"
    using a by (simp add: less_ceiling_iff)
  then have c: "(2::int) ^ j \<le> \<lceil>1 / x\<rceil> - 1" by simp
  have "\<lceil>1 / x\<rceil> \<le> (2::int) ^ (j + 1)"
    using b by (simp add: ceiling_le_iff)
  then have d: "\<lceil>1 / x\<rceil> - 1 < (2::int) ^ (j + 1)" by simp
  have "bitlen (\<lceil>1 / x\<rceil> - 1) = int j + 1" using c d by (rule bitlen_eqI)
  with less1 show ?thesis by (simp add: ilog2_def k)
qed


lemma ilog2_floor_log:
  assumes "0 < x"
  shows "ilog2 x = \<lfloor>log 2 x\<rfloor>"
proof -
  define k where "k = \<lfloor>log 2 x\<rfloor>"
  have "\<lfloor>log 2 x\<rfloor> = k" by (simp add: k_def)
  with assms have "2 powr (real_of_int k) \<le> x \<and> x < 2 powr (real_of_int (k + 1))"
    by (simp add: floor_log_eq_powr_iff)
  then have "pow2 k \<le> x" and "x < pow2 (k + 1)"
    by (simp_all add: pow2_powr)
  then have "ilog2 x = k" by (rule ilog2_unique)
  then show ?thesis by (simp add: k_def)
qed

lemma ilog2_bounds:
  assumes "0 < x"
  shows "pow2 (ilog2 x) \<le> x" and "x < pow2 (ilog2 x + 1)"
proof -
  have "\<lfloor>log 2 x\<rfloor> = ilog2 x" using assms by (simp add: ilog2_floor_log)
  with assms have "2 powr (real_of_int (ilog2 x)) \<le> x \<and> x < 2 powr (real_of_int (ilog2 x + 1))"
    by (simp add: floor_log_eq_powr_iff)
  then show "pow2 (ilog2 x) \<le> x" and "x < pow2 (ilog2 x + 1)"
    by (simp_all add: pow2_powr)
qed

lemma ilog2_less:
  assumes "0 < x" and "x < pow2 k"
  shows "ilog2 x < k"
proof -
  have "pow2 (ilog2 x) < pow2 k"
    using ilog2_bounds(1) [OF assms(1)] assms(2) by linarith
  then show ?thesis by (simp add: pow2_less_iff)
qed

lemma uint_fraction_bound: "uint (F :: 52 word) < 4503599627370496"
  using uint_lt2p [of F] by simp

lemma uint_exponent_bound: "uint (E :: 11 word) < 2048"
  using uint_lt2p [of E] by simp

lemma round_to_double_magnitude:
  assumes "exponent d \<noteq> 2047"
  shows "round_to_double (sign_bit d) (magnitude d) = d"
proof (cases d)
  case (Double s E F)
  define e where "e = uint E"
  define f where "f = uint F"
  have f0: "0 \<le> f" and f1: "f < 4503599627370496"
    by (simp_all add: f_def uint_fraction_bound)
  have e0: "0 \<le> e" and e1: "e < 2048"
    by (simp_all add: e_def uint_exponent_bound)
  have F: "word_of_int f = F" by (simp add: f_def)
  have E: "word_of_int e = E" by (simp add: e_def)
  from assms Double have "E \<noteq> 2047" by simp
  then have e2: "e \<noteq> 2047" using E by auto
  show ?thesis
  proof (cases "E = 0")
    case True
    have mag: "magnitude d = of_int f * pow2 (- 1074)"
      using True by (simp add: Double magnitude_def f_def)
    show ?thesis
    proof (cases "f = 0")
      case True
      then have "F = 0" using F by auto
      moreover have "magnitude (Double s 0 0) = 0" by (simp add: magnitude_def)
      ultimately show ?thesis
        using \<open>E = 0\<close> by (simp add: Double round_to_double_def)
    next
      case False
      with f0 have fpos: "0 < f" by simp
      define x where "x = magnitude d"
      have xpos: "0 < x" using fpos by (simp add: x_def mag pow2_pos)
      have "x < 4503599627370496 * pow2 (- 1074)"
        using f1 by (simp add: x_def mag pow2_pos)
      also have "\<dots> = pow2 52 * pow2 (- 1074)" by (simp add: pow2_def)
      also have "\<dots> = pow2 (- 1022)" by (simp add: pow2_add [symmetric])
      finally have "ilog2 x < - 1022" using xpos by (rule ilog2_less [rotated])
      then have m: "max (ilog2 x) (- 1022) = - 1022" by simp
      have q: "x / pow2 (- 1074) = of_int f"
        using pow2_pos [of "- 1074"] by (simp add: x_def mag)
      have "round_to_double s x = Double s 0 (word_of_int f)"
        using xpos f1 by (simp add: round_to_double_def m q round_half_even_of_int Let_def)
      then show ?thesis
        using \<open>E = 0\<close> F by (simp add: x_def Double)
    qed
  next
    case False
    then have "e \<noteq> 0" using E by auto
    with e0 have e3: "1 \<le> e" by simp
    from e1 e2 have e4: "e \<le> 2046" by simp
    define x where "x = magnitude d"
    define n where "n = 4503599627370496 + f"
    have mag: "x = of_int n * pow2 (e - 1075)"
      using False by (simp add: x_def Double magnitude_def f_def e_def n_def)
    have p52: "pow2 52 = 4503599627370496" by (simp add: pow2_def)
    have p53: "pow2 53 = 9007199254740992" by (simp add: pow2_def)
    have "pow2 (e - 1023) = pow2 52 * pow2 (e - 1075)"
      by (simp add: pow2_add [symmetric])
    also have "\<dots> \<le> x"
      using f0 pow2_pos [of "e - 1075"] by (simp add: mag p52 n_def)
    finally have lo: "pow2 (e - 1023) \<le> x" .
    have "x < pow2 53 * pow2 (e - 1075)"
      using f1 pow2_pos [of "e - 1075"] by (simp add: mag p53 n_def)
    also have "\<dots> = pow2 (e - 1023 + 1)"
      by (simp add: pow2_add [symmetric])
    finally have hi: "x < pow2 (e - 1023 + 1)" .
    have il: "ilog2 x = e - 1023" using lo hi by (rule ilog2_unique)
    have m: "max (ilog2 x) (- 1022) = e - 1023" using il e3 by simp
    have xpos: "x \<noteq> 0" using lo pow2_pos [of "e - 1023"] by linarith
    have q: "x / pow2 (e - 1075) = of_int n"
      using pow2_pos [of "e - 1075"] by (simp add: mag)
    have n1: "\<not> n < 4503599627370496" and n2: "n \<noteq> 9007199254740992"
      using f0 f1 by (simp_all add: n_def)
    have n3: "n - 4503599627370496 = f" by (simp add: n_def)
    have "round_to_double s x = Double s (word_of_int e) (word_of_int f)"
      using xpos n1 n2 e4
      by (simp add: round_to_double_def m q round_half_even_of_int Let_def n3)
    then show ?thesis
      using E F by (simp add: x_def Double)
  qed
qed

section \<open>The literals of the program and the arithmetic of the examples\<close>

text \<open>Each fact is computed from the definitions above.\<close>

lemma lit_0: "double_of_real 0 = Double False 0 0" by code_simp
lemma lit_1: "double_of_real 1 = Double False 1023 0" by code_simp
lemma lit_2: "double_of_real 2 = Double False 1024 0" by code_simp
lemma lit_3: "double_of_real 3 = Double False 1024 2251799813685248" by code_simp
lemma lit_10: "double_of_real 10 = Double False 1026 1125899906842624" by code_simp
lemma lit_12: "double_of_real 12 = Double False 1026 2251799813685248" by code_simp
lemma lit_62: "double_of_real 62 = Double False 1028 4222124650659840" by code_simp
lemma lit_1_5: "double_of_real (3 / 2) = Double False 1023 2251799813685248" by code_simp
lemma lit_2_5: "double_of_real (5 / 2) = Double False 1024 1125899906842624" by code_simp
lemma lit_4_5: "double_of_real (9 / 2) = Double False 1025 562949953421312" by code_simp
lemma lit_7_2: "double_of_real (36 / 5) = Double False 1025 3602879701896397" by code_simp
lemma lit_18_4: "double_of_real (92 / 5) = Double False 1027 675539944105574" by code_simp
lemma lit_28_6: "double_of_real (143 / 5) = Double False 1027 3546584706554266" by code_simp
lemma lit_minus_5: "double_of_real (- 5) = Double True 1025 1125899906842624" by code_simp

lemma mul_1_5_18_4:
  "dmul (Double False 1023 2251799813685248) (Double False 1027 675539944105574) =
   Double False 1027 3265109729843609" by code_simp
lemma add_27_6_1:
  "dadd (Double False 1027 3265109729843609) (Double False 1023 0) =
   Double False 1027 3546584706554265" by code_simp
lemma lt_3_28_6:
  "dlt (Double False 1024 2251799813685248) (Double False 1027 3546584706554265)" by code_simp

lemma mul_2_5_12:
  "dmul (Double False 1024 1125899906842624) (Double False 1026 2251799813685248) =
   Double False 1027 3940649673949184" by code_simp
lemma mul_30_2:
  "dmul (Double False 1027 3940649673949184) (Double False 1024 0) =
   Double False 1028 3940649673949184" by code_simp
lemma add_60_2:
  "dadd (Double False 1028 3940649673949184) (Double False 1024 0) =
   Double False 1028 4222124650659840" by code_simp
lemma lt_10_62:
  "dlt (Double False 1026 1125899906842624) (Double False 1028 4222124650659840)" by code_simp

lemma lit_7_75: "double_of_real (31 / 4) = Double False 1025 4222124650659840" by code_simp

lemma lt_2_18_4: "dlt (Double False 1024 0) (Double False 1027 675539944105574)" by code_simp

lemma mul_1_5_4_5:
  "dmul (Double False 1023 2251799813685248) (Double False 1025 562949953421312) =
   Double False 1025 3096224743817216" by code_simp

lemma add_6_75_1:
  "dadd (Double False 1025 3096224743817216) (Double False 1023 0) =
   Double False 1025 4222124650659840" by code_simp

lemma lt_3_7_75:
  "dlt (Double False 1024 2251799813685248) (Double False 1025 4222124650659840)" by code_simp

text \<open>
  \<^verbatim>\<open>StandardRide("Downtown", "Airport", 18.4).fare()\<close>: the literal \<^verbatim>\<open>18.4\<close> is the \<^verbatim>\<open>double\<close>
  \<open>5179139571476070 / 2^48\<close>, a little below 18.4; \<^verbatim>\<open>1.5\<close> times it and the sum with \<^verbatim>\<open>1.0\<close> are
  both exact, so the fare is \<open>8050184333924761 / 2^48\<close>.
\<close>

lemma fare_18_4:
  "fare (fst (StandardRide_ctor ''Downtown'' ''Airport'' (double_of_real (92 / 5)) n)) =
   Double False 1027 3546584706554265"
  by (simp add: StandardRide_ctor_def Ride_ctor_def StandardRide_fare_def Let_def dmax_def
      lit_1 lit_3 lit_1_5 lit_18_4 mul_1_5_18_4 add_27_6_1 lt_3_28_6)

section \<open>Comparison, maximum and multiplication by one\<close>

lemma dle_refl: "\<not> is_nan a \<Longrightarrow> dle a a"
  by (simp add: dle_def is_inf_def)

lemma dlt_imp_dle: "dlt a b \<Longrightarrow> dle a b"
  by (auto simp add: dlt_def dle_def split: if_splits)

lemma dle_dmax: "\<not> is_nan a \<Longrightarrow> dle a (dmax a b)"
  by (simp add: dmax_def dle_refl dlt_imp_dle)

lemma dmax_nan: "is_nan b \<Longrightarrow> dmax a b = a"
  by (simp add: dmax_def dlt_def)

lemma is_nan_quiet_NaN: "is_nan quiet_NaN"
  by (simp add: is_nan_def quiet_NaN_def)

lemma dle_not_nan: "dle a b \<Longrightarrow> \<not> is_nan b"
  by (auto simp add: dle_def split: if_splits)

lemma dmul_one:
  assumes "\<not> is_nan d"
  shows "dmul (double_of_real 1) d = d"
proof (cases "is_inf d")
  case True
  then have "infinity (sign_bit d) = d"
    by (cases d) (simp add: is_inf_def infinity_def)
  with True assms show ?thesis
    by (simp add: dmul_def lit_1 is_nan_def is_inf_def is_zero_def)
next
  case False
  with assms have fin: "exponent d \<noteq> 2047"
    by (auto simp add: is_nan_def is_inf_def)
  have one: "magnitude (Double False 1023 0) = 1"
    by (simp add: magnitude_def pow2_def)
  from False assms show ?thesis
    by (simp add: dmul_def lit_1 is_nan_def is_inf_def one round_to_double_magnitude [OF fin])
qed

lemma dmax_dmul_one: "dmax a (dmul (double_of_real 1) d) = dmax a d"
proof (cases "is_nan d")
  case True
  then have "dmul (double_of_real 1) d = quiet_NaN" by (simp add: dmul_def)
  with True show ?thesis by (simp add: dmax_nan is_nan_quiet_NaN)
next
  case False
  then show ?thesis by (simp add: dmul_one)
qed

section \<open>Fares\<close>

text \<open>
  C3. The base \<^verbatim>\<open>Ride::fare()\<close> returns \<^verbatim>\<open>std::max(2.0, 1.0 * distanceMiles)\<close>, the product and
  the comparison being those of \<^verbatim>\<open>double\<close>; as multiplying by \<^verbatim>\<open>1.0\<close> changes no number, this
  is \<^verbatim>\<open>std::max(2.0, distanceMiles)\<close>. It holds for every distance, so for every distance
  \<open>\<ge> 0\<close>.
\<close>

theorem base_fare_formula:
  "fare (Ride_object r) = dmax (double_of_real 2) (dmul (double_of_real 1) (distanceMiles r)) \<and>
   fare (Ride_object r) = dmax (double_of_real 2) (distanceMiles r)"
  by (simp add: Ride_fare_def Let_def dmax_dmul_one)

theorem base_fare_formula_witness:
  "fare (Ride_object \<lparr>rideID = 1, pickupLocation = ''Downtown'', dropoffLocation = ''Airport'',
      distanceMiles = double_of_real (184 / 10)\<rparr>) = double_of_real (184 / 10)"
  using base_fare_formula [of "\<lparr>rideID = 1, pickupLocation = ''Downtown'',
      dropoffLocation = ''Airport'', distanceMiles = double_of_real (184 / 10)\<rparr>", THEN conjunct2]
  by (simp add: dmax_def lit_2 lit_18_4 lt_2_18_4)

text \<open>
  C1, as the claim states it, fails at its own example: the fare of
  \<^verbatim>\<open>StandardRide("Downtown", "Airport", 18.4)\<close> is not the \<^verbatim>\<open>double\<close> \<^verbatim>\<open>28.6\<close>.
\<close>

theorem standard_fare_18_4_counterexample:
  "fare (fst (StandardRide_ctor ''Downtown'' ''Airport'' (double_of_real (184 / 10)) 1)) \<noteq>
   double_of_real (286 / 10)"
  by (simp add: fare_18_4 lit_28_6)

text \<open>
  C1, amended. For every distance, \<^verbatim>\<open>StandardRide::fare()\<close> returns
  \<^verbatim>\<open>std::max(3.0, 1.5 * distanceMiles + 1.0)\<close> computed in \<^verbatim>\<open>double\<close>, the product and the sum
  each rounded to the nearest \<^verbatim>\<open>double\<close>. For \<^verbatim>\<open>StandardRide("Downtown", "Airport", 18.4)\<close> the
  result is the \<^verbatim>\<open>double\<close> \<open>28.6 - 3 / (5 * 2^48)\<close>, which is 28.599999999999998 and not the
  \<^verbatim>\<open>double\<close> \<^verbatim>\<open>28.6\<close>: it equals 28.60 only to two decimals.
\<close>

theorem standard_fare_formula:
  "fare (StandardRide_object r) =
     dmax (double_of_real 3)
       (dadd (dmul (double_of_real (15 / 10)) (distanceMiles r)) (double_of_real 1)) \<and>
   fare (fst (StandardRide_ctor ''Downtown'' ''Airport'' (double_of_real (184 / 10)) n)) =
     Double False 1027 3546584706554265 \<and>
   valof (Double False 1027 3546584706554265) = 286 / 10 - 3 / (5 * 2 ^ 48)"
proof -
  have "valof (Double False 1027 3546584706554265) = 286 / 10 - 3 / (5 * 2 ^ 48)"
    by (simp add: valof_def magnitude_def pow2_def)
  then show ?thesis
    by (simp add: fare_18_4) (simp add: StandardRide_fare_def Let_def)
qed

theorem standard_fare_formula_witness:
  "fare (StandardRide_object \<lparr>rideID = 3, pickupLocation = ''Home'', dropoffLocation = ''Office'',
      distanceMiles = double_of_real (45 / 10)\<rparr>) = double_of_real (775 / 100)"
  using standard_fare_formula [of "\<lparr>rideID = 3, pickupLocation = ''Home'',
      dropoffLocation = ''Office'', distanceMiles = double_of_real (45 / 10)\<rparr>", THEN conjunct1]
  by (simp add: dmax_def lit_1 lit_3 lit_1_5 lit_4_5 lit_7_75 mul_1_5_4_5 add_6_75_1 lt_3_7_75)

text \<open>
  C2. For every distance and multiplier, \<^verbatim>\<open>PremiumRide::fare()\<close> returns
  \<^verbatim>\<open>std::max(10.0, 2.5 * distanceMiles * multiplier + 2.0)\<close> computed in \<^verbatim>\<open>double\<close>; a
  \<^verbatim>\<open>PremiumRide\<close> constructed without a multiplier has the multiplier \<^verbatim>\<open>2.0\<close>, one constructed
  with a multiplier has that one; and \<^verbatim>\<open>PremiumRide("Hotel", "Convention Center", 12.0).fare()\<close>
  is the \<^verbatim>\<open>double\<close> \<^verbatim>\<open>62.0\<close>, whose value is 62.
\<close>

theorem premium_fare_formula:
  "fare (PremiumRide_object r m) =
     dmax (double_of_real 10)
       (dadd (dmul (dmul (double_of_real (25 / 10)) (distanceMiles r)) m) (double_of_real 2)) \<and>
   luxuryMultiplier (fst (PremiumRide_ctor pickup dropoff distance None n)) = double_of_real 2 \<and>
   luxuryMultiplier (fst (PremiumRide_ctor pickup dropoff distance (Some m) n)) = m \<and>
   fare (fst (PremiumRide_ctor ''Hotel'' ''Convention Center'' (double_of_real 12) None n)) =
     double_of_real 62 \<and>
   valof (double_of_real 62) = 62"
proof -
  have "valof (double_of_real 62) = 62"
    by (simp add: lit_62 valof_def magnitude_def pow2_def)
  moreover have
    "fare (fst (PremiumRide_ctor ''Hotel'' ''Convention Center'' (double_of_real 12) None n)) =
     double_of_real 62"
    by (simp add: PremiumRide_ctor_def Ride_ctor_def PremiumRide_fare_def Let_def dmax_def
        lit_2 lit_10 lit_12 lit_62 lit_2_5 mul_2_5_12 mul_30_2 add_60_2 lt_10_62)
  ultimately show ?thesis
    by (simp add: PremiumRide_ctor_def Ride_ctor_def) (simp add: PremiumRide_fare_def Let_def)
qed

text \<open>
  C9. Whatever the distance and the multiplier (negative, infinite or NaN), \<^verbatim>\<open>Ride::fare()\<close> is
  at least \<^verbatim>\<open>2.0\<close>, \<^verbatim>\<open>StandardRide::fare()\<close> at least \<^verbatim>\<open>3.0\<close> and \<^verbatim>\<open>PremiumRide::fare()\<close> at least
  \<^verbatim>\<open>10.0\<close>.
\<close>

theorem fare_never_below_floor:
  "dle (double_of_real 2) (fare (Ride_object r)) \<and>
   dle (double_of_real 3) (fare (StandardRide_object r)) \<and>
   dle (double_of_real 10) (fare (PremiumRide_object r m))"
  by (simp add: Ride_fare_def StandardRide_fare_def PremiumRide_fare_def Let_def dle_dmax
      lit_2 lit_3 lit_10 is_nan_def)

theorem fare_never_below_floor_witness:
  "dle (double_of_real 2)
     (fare (Ride_object \<lparr>rideID = 1, pickupLocation = ''A'', dropoffLocation = ''B'',
        distanceMiles = double_of_real (- 5)\<rparr>)) \<and>
   dle (double_of_real 3)
     (fare (StandardRide_object \<lparr>rideID = 1, pickupLocation = ''A'', dropoffLocation = ''B'',
        distanceMiles = double_of_real (- 5)\<rparr>)) \<and>
   dle (double_of_real 10)
     (fare (PremiumRide_object \<lparr>rideID = 1, pickupLocation = ''A'', dropoffLocation = ''B'',
        distanceMiles = double_of_real (- 5)\<rparr> quiet_NaN))"
  by (rule fare_never_below_floor)

section \<open>Creating rides\<close>

text \<open>
  What one creation does to the state, and what a sequence of creations does: the counter
  advances by one per ride, the new rides get the addresses from \<open>fresh\<close> on, and the cells
  that were there stay as they were.
\<close>

lemma create_result:
  obtains obj where
    "create c w =
       (Some (fresh w),
        w\<lparr>nextID := nextID w + 1,
          heap := (heap w)(fresh w \<mapsto> \<lparr>object = obj, use_count = 1\<rparr>),
          fresh := fresh w + 1\<rparr>)"
    and "getRideID obj = nextID w"
    and "getPickup obj = pickup_of c"
    and "getDropoff obj = dropoff_of c"
    and "getDistance obj = distance_of c"
  by (cases c)
    (simp_all add: make_shared_Ride_def make_shared_StandardRide_def make_shared_PremiumRide_def
      BaseRide_ctor_def StandardRide_ctor_def PremiumRide_ctor_def Ride_ctor_def allocate_def
      getRideID_def getPickup_def getDropoff_def getDistance_def)

lemma wf_initial_world: "wf_world initial_world"
  by (simp add: wf_world_def initial_world_def)

lemma create_all_spec:
  assumes "wf_world w" and "create_all cs w = (ps, w')"
  shows "wf_world w' \<and>
         nextID w' = nextID w + of_nat (length cs) \<and>
         fresh w' = fresh w + length cs \<and>
         (\<forall>a<fresh w. heap w' a = heap w a) \<and>
         length ps = length cs \<and>
         (\<forall>i<length cs. ps ! i = Some (fresh w + i)) \<and>
         (\<forall>i<length cs. \<exists>c. heap w' (fresh w + i) = Some c \<and>
            getRideID (object c) = nextID w + of_nat i)"
  using assms
proof (induction cs arbitrary: w ps w')
  case Nil
  then show ?case by simp
next
  case (Cons c cs)
  obtain obj where cr: "create c w =
       (Some (fresh w),
        w\<lparr>nextID := nextID w + 1,
          heap := (heap w)(fresh w \<mapsto> \<lparr>object = obj, use_count = 1\<rparr>),
          fresh := fresh w + 1\<rparr>)"
    and oid: "getRideID obj = nextID w"
    by (rule create_result)
  define w1 where "w1 = w\<lparr>nextID := nextID w + 1,
          heap := (heap w)(fresh w \<mapsto> \<lparr>object = obj, use_count = 1\<rparr>),
          fresh := fresh w + 1\<rparr>"
  obtain ps1 w2 where ca: "create_all cs w1 = (ps1, w2)" by (cases "create_all cs w1")
  from Cons.prems(2) cr ca have ps: "ps = Some (fresh w) # ps1" and w2: "w2 = w'"
    by (simp_all add: w1_def)
  have wf1: "wf_world w1"
    using Cons.prems(1) by (auto simp add: wf_world_def w1_def less_Suc_eq)
  note IH = Cons.IH [OF wf1 ca]
  have n1: "nextID w1 = nextID w + 1" and f1: "fresh w1 = fresh w + 1"
    and h1: "heap w1 = (heap w)(fresh w \<mapsto> \<lparr>object = obj, use_count = 1\<rparr>)"
    by (simp_all add: w1_def)
  have A: "wf_world w'" using IH w2 by simp
  have B: "nextID w' = nextID w + of_nat (length (c # cs))"
    using IH w2 n1 by simp
  have C: "fresh w' = fresh w + length (c # cs)"
    using IH w2 f1 by simp
  have keep: "\<forall>a<fresh w1. heap w' a = heap w1 a" using IH w2 by simp
  have D: "\<forall>a<fresh w. heap w' a = heap w a"
    using keep by (simp add: f1 h1)
  have E: "length ps = length (c # cs)"
    using IH ps by simp
  have E': "\<forall>i<length (c # cs). ps ! i = Some (fresh w + i)"
    using IH ps f1 by (simp add: nth_Cons split: nat.split)
  have F: "\<forall>i<length (c # cs). \<exists>k. heap w' (fresh w + i) = Some k \<and>
            getRideID (object k) = nextID w + of_nat i"
  proof (intro allI impI)
    fix i assume i: "i < length (c # cs)"
    show "\<exists>k. heap w' (fresh w + i) = Some k \<and> getRideID (object k) = nextID w + of_nat i"
    proof (cases i)
      case 0
      have "heap w' (fresh w) = heap w1 (fresh w)" using keep by (simp add: f1)
      then show ?thesis using 0 oid by (simp add: h1)
    next
      case (Suc j)
      with i have "j < length cs" by simp
      with IH w2 obtain k where "heap w' (fresh w1 + j) = Some k"
        and "getRideID (object k) = nextID w1 + of_nat j" by blast
      then show ?thesis using Suc by (simp add: f1 n1)
    qed
  qed
  from A B C D E E' F show ?case by blast
qed

lemma sint_word_of_int_small:
  assumes "0 \<le> k" and "k < 2147483648"
  shows "sint (word_of_int k :: 32 word) = k"
  using assms by (simp add: int_word_sint)

lemma sint_of_nat_small:
  assumes "n < 2147483648"
  shows "sint (of_nat n :: 32 word) = int n"
  using sint_word_of_int_small [of "int n"] assms by simp

lemma id_of_heap:
  "heap w a = Some c \<Longrightarrow> id_of w (Some a) = Some (sint (getRideID (object c)))"
  by (simp add: id_of_def deref_def)

lemma created_ids:
  assumes "create_all cs initial_world = (ps, w)" and "i < length cs"
  shows "id_of w (ps ! i) = Some (sint (of_nat (Suc i) :: 32 word))"
proof -
  note S = create_all_spec [OF wf_initial_world assms(1)]
  from S assms(2) have p: "ps ! i = Some i" by (simp add: initial_world_def)
  from S assms(2) obtain c where "heap w i = Some c"
    and "getRideID (object c) = 1 + of_nat i"
    by (auto simp add: initial_world_def)
  then show ?thesis by (simp add: p id_of_heap)
qed

lemma lit_minus_1: "double_of_real (- 1) = Double True 1023 0" by code_simp
lemma lt_minus_1_0: "dlt (Double True 1023 0) (Double False 0 0)" by code_simp

text \<open>
  C4, as the claim states it, fails once the counter has reached \<^verbatim>\<open>INT_MAX\<close>: after
  2147483646 creations the next ride gets the ID 2147483647 and the one after it gets
  -2147483648, which is neither one greater nor greater at all. (No \<^verbatim>\<open>int\<close> is one greater than
  \<^verbatim>\<open>INT_MAX\<close>, whatever \<^verbatim>\<open>nextID++\<close> does there.)
\<close>

theorem ride_ids_counterexample:
  "(let w0 = snd (create_all (replicate 2147483646 (NewRide [] [] (double_of_real 1)))
                initial_world);
        (p1, w1) = create (NewStandardRide ''Downtown'' ''Airport'' (double_of_real 1)) w0;
        (p2, w2) = create (NewStandardRide ''Home'' ''Office'' (double_of_real 1)) w1
    in id_of w2 p1 = Some 2147483647 \<and> id_of w2 p2 = Some (- 2147483648))"
proof -
  define cs where "cs = replicate 2147483646 (NewRide [] [] (double_of_real 1))"
  define w0 where "w0 = snd (create_all cs initial_world)"
  have len: "length cs = 2147483646" by (simp add: cs_def)
  have ca: "create_all cs initial_world = (fst (create_all cs initial_world), w0)"
    by (simp add: w0_def)
  note S = create_all_spec [OF wf_initial_world ca]
  have n0: "nextID w0 = 2147483647" using S by (simp add: initial_world_def len)
  have wf0: "wf_world w0" using S by simp
  obtain o1 where c1: "create (NewStandardRide ''Downtown'' ''Airport'' (double_of_real 1)) w0 =
       (Some (fresh w0),
        w0\<lparr>nextID := nextID w0 + 1,
          heap := (heap w0)(fresh w0 \<mapsto> \<lparr>object = o1, use_count = 1\<rparr>),
          fresh := fresh w0 + 1\<rparr>)"
    and i1: "getRideID o1 = nextID w0"
    by (rule create_result)
  define w1 where "w1 = w0\<lparr>nextID := nextID w0 + 1,
          heap := (heap w0)(fresh w0 \<mapsto> \<lparr>object = o1, use_count = 1\<rparr>),
          fresh := fresh w0 + 1\<rparr>"
  obtain o2 where c2: "create (NewStandardRide ''Home'' ''Office'' (double_of_real 1)) w1 =
       (Some (fresh w1),
        w1\<lparr>nextID := nextID w1 + 1,
          heap := (heap w1)(fresh w1 \<mapsto> \<lparr>object = o2, use_count = 1\<rparr>),
          fresh := fresh w1 + 1\<rparr>)"
    and i2: "getRideID o2 = nextID w1"
    by (rule create_result)
  have n1: "nextID w1 = 2147483647 + 1" by (simp add: w1_def n0)
  have "id_of (w1\<lparr>nextID := nextID w1 + 1,
          heap := (heap w1)(fresh w1 \<mapsto> \<lparr>object = o2, use_count = 1\<rparr>),
          fresh := fresh w1 + 1\<rparr>) (Some (fresh w0)) = Some 2147483647"
    by (simp add: id_of_def deref_def w1_def i1 n0)
  moreover have "id_of (w1\<lparr>nextID := nextID w1 + 1,
          heap := (heap w1)(fresh w1 \<mapsto> \<lparr>object = o2, use_count = 1\<rparr>),
          fresh := fresh w1 + 1\<rparr>) (Some (fresh w1)) = Some (- 2147483648)"
    by (simp add: id_of_def deref_def i2 n1)
  ultimately show ?thesis
    unfolding cs_def [symmetric] w0_def [symmetric] Let_def c1 w1_def [symmetric]
    by (simp add: c2 del: create.simps)
qed

text \<open>
  C4, amended. \<^verbatim>\<open>Ride::nextID\<close> starts at 1, and as long as fewer than \<open>2^31 - 1\<close> rides have
  been created in the process, the rides created so far, of whatever class, have the IDs
  1, 2, 3, ... in the order of their creation: the first has ID 1 and each later one has an
  ID one greater than the ride created before it, so the IDs are distinct and increasing;
  the counter is then one more than the number of rides created.
\<close>

theorem ride_ids_sequential:
  assumes "create_all cs initial_world = (ps, w)" and "length cs < 2147483647"
  shows "map (id_of w) ps = map (\<lambda>i. Some (int i + 1)) [0..<length cs] \<and>
         sint (nextID w) = int (length cs) + 1 \<and>
         distinct (map (id_of w) ps)"
proof -
  note S = create_all_spec [OF wf_initial_world assms(1)]
  have len: "length ps = length cs" using S by simp
  have ids: "map (id_of w) ps = map (\<lambda>i. Some (int i + 1)) [0..<length cs]"
  proof (rule nth_equalityI)
    show "length (map (id_of w) ps) = length (map (\<lambda>i. Some (int i + 1)) [0..<length cs])"
      by (simp add: len)
  next
    fix i assume "i < length (map (id_of w) ps)"
    then have i: "i < length cs" by (simp add: len)
    with assms(2) have "Suc i < 2147483648" by simp
    then have "sint (of_nat (Suc i) :: 32 word) = int (Suc i)" by (rule sint_of_nat_small)
    with created_ids [OF assms(1) i] i
    show "map (id_of w) ps ! i = map (\<lambda>i. Some (int i + 1)) [0..<length cs] ! i"
      by (simp add: len)
  qed
  have "nextID w = of_nat (Suc (length cs))" using S by (simp add: initial_world_def)
  moreover have "sint (of_nat (Suc (length cs)) :: 32 word) = int (Suc (length cs))"
    using assms(2) by (intro sint_of_nat_small) simp
  ultimately have nxt: "sint (nextID w) = int (length cs) + 1" by simp
  have "inj_on (\<lambda>i. Some (int i + 1)) (set [0..<length cs])"
    by (rule inj_onI) simp
  then have "distinct (map (\<lambda>i. Some (int i + 1)) [0..<length cs])"
    by (simp add: distinct_map)
  with ids nxt show ?thesis by simp
qed

theorem ride_ids_sequential_witness:
  "map (id_of (snd (create_all demo_rides initial_world)))
     (fst (create_all demo_rides initial_world)) = [Some 1, Some 2, Some 3, Some 4]"
proof -
  have "length demo_rides = 4" by (simp add: demo_rides_def)
  moreover have "[0..<4] = [0, 1, 2, 3::nat]" by (simp add: upt_rec)
  ultimately show ?thesis
    using ride_ids_sequential [of demo_rides "fst (create_all demo_rides initial_world)"
        "snd (create_all demo_rides initial_world)"]
    by simp
qed

text \<open>
  C5, as the claim states it, fails: creating a ride with the negative distance \<^verbatim>\<open>-1.0\<close>
  raises nothing. It returns a ride with that distance, which has taken the ID 1 and left the
  counter at 2.
\<close>

theorem negative_distance_counterexample:
  "(let (p, w) = make_shared_StandardRide ''Downtown'' ''Airport'' (double_of_real (- 1))
                   initial_world
    in dlt (double_of_real (- 1)) (double_of_real 0) \<and>
       map_option getDistance (deref w p) = Some (double_of_real (- 1)) \<and>
       id_of w p = Some 1 \<and> sint (nextID w) = 2)"
  by (simp add: make_shared_StandardRide_def StandardRide_ctor_def Ride_ctor_def allocate_def
      initial_world_def deref_def id_of_def getDistance_def getRideID_def
      lit_minus_1 lit_0 lt_minus_1_0)

text \<open>
  C5, amended. Ride creation validates nothing and never fails: for every pickup, dropoff
  and distance (negative ones included) it returns a new ride holding exactly these
  values and the next sequential ID, and its only effects on the state are the counter
  advanced by one and the one new object in the store.
\<close>

theorem creation_never_fails:
  "\<exists>obj. create c w =
       (Some (fresh w),
        w\<lparr>nextID := nextID w + 1,
          heap := (heap w)(fresh w \<mapsto> \<lparr>object = obj, use_count = 1\<rparr>),
          fresh := fresh w + 1\<rparr>) \<and>
     getRideID obj = nextID w \<and> getPickup obj = pickup_of c \<and>
     getDropoff obj = dropoff_of c \<and> getDistance obj = distance_of c"
  using create_result [of c w] by blast

theorem creation_never_fails_witness:
  "\<exists>obj. create (NewStandardRide ''Downtown'' ''Airport'' (double_of_real (- 1))) initial_world =
       (Some 0,
        \<lparr>nextID = 2, heap = [0 \<mapsto> \<lparr>object = obj, use_count = 1\<rparr>], fresh = 1\<rparr>) \<and>
     getRideID obj = 1 \<and> getDistance obj = double_of_real (- 1)"
  using creation_never_fails [of "NewStandardRide ''Downtown'' ''Airport'' (double_of_real (- 1))"
      initial_world]
  by (simp add: initial_world_def) blast

section \<open>Facts about drivers\<close>

text \<open>
  What \<^verbatim>\<open>addRide\<close>, \<^verbatim>\<open>clearAssignedRides\<close> and the loop of \<^verbatim>\<open>getDriverInfo\<close> do to the vector and
  to the store. Adding rides raises the use count of each cell by the number of times its
  address is added; clearing lowers it by the number of times the address is in the vector
  and deletes the cell when no owner is left.
\<close>

lemma addRides_assigned: "assignedRides (fst (addRides d rides w)) = assignedRides d @ rides"
  by (induction rides arbitrary: d w) (simp_all add: addRide_def)

lemma destroy_ptr_fields: "nextID (destroy_ptr p w) = nextID w \<and> fresh (destroy_ptr p w) = fresh w"
  by (simp add: destroy_ptr_def split: option.split)

lemma fold_destroy_fields:
  "nextID (fold destroy_ptr rs w) = nextID w \<and> fresh (fold destroy_ptr rs w) = fresh w"
  by (induction rs arbitrary: w) (simp_all add: destroy_ptr_fields)

lemma destroy_ptr_heap:
  "heap (destroy_ptr p w) a =
     (if p = Some a then
        (case heap w a of
           None \<Rightarrow> None
         | Some c \<Rightarrow> if use_count c \<le> 1 then None else Some (c\<lparr>use_count := use_count c - 1\<rparr>))
      else heap w a)"
  by (simp add: destroy_ptr_def split: option.split)

lemma fold_destroy_heap:
  "heap (fold destroy_ptr rs w) a =
     (case heap w a of
        None \<Rightarrow> None
      | Some c \<Rightarrow>
          if count_list rs (Some a) = 0 then Some c
          else if count_list rs (Some a) < use_count c
          then Some (c\<lparr>use_count := use_count c - count_list rs (Some a)\<rparr>)
          else None)"
proof (induction rs arbitrary: w)
  case Nil
  then show ?case by (simp split: option.split)
next
  case (Cons r rs)
  show ?case
    by (simp add: Cons.IH destroy_ptr_heap split: option.split)
qed

lemma heap_copy_ptr:
  "heap (copy_ptr p w) a =
     (if p = Some a then map_option (\<lambda>c. c\<lparr>use_count := use_count c + 1\<rparr>) (heap w a)
      else heap w a)"
  by (cases p) (auto simp add: copy_ptr_def split: option.split)

lemma heap_addRides:
  "heap (snd (addRides d rides w)) a =
     map_option (\<lambda>c. c\<lparr>use_count := use_count c + count_list rides (Some a)\<rparr>) (heap w a)"
proof (induction rides arbitrary: d w)
  case Nil
  then show ?case by (simp add: option.map_ident)
next
  case (Cons r rs)
  show ?case
    by (cases "heap w a") (simp_all add: addRide_def Cons.IH heap_copy_ptr)
qed

lemma deref_copy_ptr: "deref (copy_ptr p w) q = deref w q"
  by (cases p; cases q) (auto simp add: copy_ptr_def deref_def split: option.split)

lemma deref_addRides: "deref (snd (addRides d rides w)) q = deref w q"
  by (induction rides arbitrary: d w) (simp_all add: addRide_def deref_copy_ptr)

lemma valid_ptr_deref: "valid_ptr w p \<longleftrightarrow> p = None \<or> deref w p \<noteq> None"
  by (cases p) (simp_all add: valid_ptr_def deref_def)

lemma summary_loop_valid:
  assumes "\<forall>p\<in>set rs. valid_ptr w p"
  shows "summary_loop rs w (printed, earnings) =
     Some (printed @ map rideDetails (List.map_filter (deref w) rs),
           foldl dadd earnings (map fare (List.map_filter (deref w) rs)))"
  using assms
proof (induction rs arbitrary: printed earnings)
  case Nil
  then show ?case by (simp add:)
next
  case (Cons r rs)
  show ?case
  proof (cases r)
    case None
    with Cons show ?thesis by (simp add: deref_def)
  next
    case (Some a)
    with Cons.prems obtain c where c: "heap w a = Some c"
      by (auto simp add: valid_ptr_def)
    with Some Cons show ?thesis by (simp add: deref_def)
  qed
qed

lemma getDriverInfo_valid:
  assumes "\<forall>p\<in>set (assignedRides d). valid_ptr w p"
  shows "getDriverInfo d w =
     Some \<lparr>header_id = driverID d, header_name = name d, header_rating = rating d,
           header_count = length (assignedRides d),
           details = map rideDetails (List.map_filter (deref w) (assignedRides d)),
           totalEarnings =
             foldl dadd (double_of_real 0)
               (map fare (List.map_filter (deref w) (assignedRides d)))\<rparr>"
  by (simp add: getDriverInfo_def summary_loop_valid [OF assms])

lemma summary_loop_append_null:
  "summary_loop (rs @ [None]) w acc = summary_loop rs w acc"
  by (induction rs w acc rule: summary_loop.induct) (simp_all split: option.split)

lemma summary_loop_length:
  "summary_loop rs w (printed, earnings) = Some (printed', earnings') \<Longrightarrow>
   length printed' = length printed + length (filter (\<lambda>p. p \<noteq> None) rs)"
proof (induction rs arbitrary: printed earnings)
  case Nil
  then show ?case by simp
next
  case (Cons r rs)
  then show ?case by (cases r) (auto split: option.splits)
qed

lemma length_without_nulls:
  "length (filter (\<lambda>p. p \<noteq> None) rs) + count_list rs None = length rs"
  by (induction rs) simp_all

text \<open>
  Adding a non-zero finite number to \<^verbatim>\<open>0.0\<close> gives the number back, and the arithmetic of the
  examples below.
\<close>

lemma magnitude_pos: "exponent d \<noteq> 0 \<Longrightarrow> 0 < magnitude d"
proof -
  assume "exponent d \<noteq> 0"
  moreover have "(0::int) < 2 ^ 52 + uint (fraction d)"
    by (intro add_pos_nonneg) simp_all
  then have "(0::real) < of_int (2 ^ 52 + uint (fraction d))"
    by (simp only: of_int_0_less_iff)
  ultimately show ?thesis
    using pow2_pos [of "uint (exponent d) - 1075"] by (simp add: magnitude_def)
qed

lemma dadd_zero_left:
  assumes "exponent d \<noteq> 2047" and "exponent d \<noteq> 0"
  shows "dadd (double_of_real 0) d = d"
proof -
  have m: "0 < magnitude d" using assms(2) by (rule magnitude_pos)
  have z: "valof (Double False 0 0) = 0" by (simp add: valof_def magnitude_def)
  have v: "valof d \<noteq> 0" "valof d < 0 \<longleftrightarrow> sign_bit d" "\<bar>valof d\<bar> = magnitude d"
    using m by (simp_all add: valof_def)
  show ?thesis
    using assms(1)
    by (simp add: dadd_def lit_0 is_nan_def is_inf_def z v Let_def round_to_double_magnitude)
qed

lemma add_28_6_7_75:
  "dadd (Double False 1027 3546584706554265) (Double False 1025 4222124650659840) =
   Double False 1028 612208074345676" by code_simp

lemma standard_fare_18_4:
  "distanceMiles r = double_of_real (92 / 5) \<Longrightarrow>
   StandardRide_fare r = Double False 1027 3546584706554265"
  by (simp add: StandardRide_fare_def Let_def dmax_def
      lit_1 lit_3 lit_1_5 lit_18_4 mul_1_5_18_4 add_27_6_1 lt_3_28_6)

lemma standard_fare_4_5:
  "distanceMiles r = double_of_real (9 / 2) \<Longrightarrow>
   StandardRide_fare r = Double False 1025 4222124650659840"
  by (simp add: StandardRide_fare_def Let_def dmax_def
      lit_1 lit_3 lit_1_5 lit_4_5 mul_1_5_4_5 add_6_75_1 lt_3_7_75)

lemma lit_1_23: "double_of_real (123 / 100) = Double False 1023 1035827914295214" by code_simp

lemma lit_1_43: "double_of_real (143 / 100) = Double False 1023 1936547839769313" by code_simp

lemma lit_1_8: "double_of_real (9 / 5) = Double False 1023 3602879701896397" by code_simp

lemma mul_1_5_1_23:
  "dmul (Double False 1023 2251799813685248) (Double False 1023 1035827914295214) =
   Double False 1023 3805541685128069" by code_simp

lemma add_1_845_1:
  "dadd (Double False 1023 3805541685128069) (Double False 1023 0) =
   Double False 1024 1902770842564034" by code_simp

lemma not_lt_3_2_845:
  "\<not> dlt (Double False 1024 2251799813685248) (Double False 1024 1902770842564034)"
  by code_simp

lemma mul_1_5_1_43:
  "dmul (Double False 1023 2251799813685248) (Double False 1023 1936547839769313) =
   Double False 1024 326510972984361" by code_simp

lemma add_2_145_1:
  "dadd (Double False 1024 326510972984361) (Double False 1023 0) =
   Double False 1024 2578310786669609" by code_simp

lemma lt_3_3_145:
  "dlt (Double False 1024 2251799813685248) (Double False 1024 2578310786669609)" by code_simp

lemma mul_1_5_1_8:
  "dmul (Double False 1023 2251799813685248) (Double False 1023 3602879701896397) =
   Double False 1024 1576259869579674" by code_simp

lemma add_2_7_1:
  "dadd (Double False 1024 1576259869579674) (Double False 1023 0) =
   Double False 1024 3828059683264922" by code_simp

lemma lt_3_3_7:
  "dlt (Double False 1024 2251799813685248) (Double False 1024 3828059683264922)" by code_simp

lemma add_3_3_145:
  "dadd (Double False 1024 2251799813685248) (Double False 1024 2578310786669609) =
   Double False 1025 2415055300177428" by code_simp

lemma add_6_145_3_7:
  "dadd (Double False 1025 2415055300177428) (Double False 1024 3828059683264922) =
   Double False 1026 1038642664062320" by code_simp

lemma add_3_7_3_145:
  "dadd (Double False 1024 3828059683264922) (Double False 1024 2578310786669609) =
   Double False 1025 3203185234967266" by code_simp

lemma add_6_845_3:
  "dadd (Double False 1025 3203185234967266) (Double False 1024 2251799813685248) =
   Double False 1026 1038642664062321" by code_simp

lemma standard_fare_1_23:
  "distanceMiles r = double_of_real (123 / 100) \<Longrightarrow>
   StandardRide_fare r = Double False 1024 2251799813685248"
  by (simp add: StandardRide_fare_def Let_def dmax_def
      lit_1 lit_3 lit_1_5 lit_1_23 mul_1_5_1_23 add_1_845_1 not_lt_3_2_845)

lemma standard_fare_1_43:
  "distanceMiles r = double_of_real (143 / 100) \<Longrightarrow>
   StandardRide_fare r = Double False 1024 2578310786669609"
  by (simp add: StandardRide_fare_def Let_def dmax_def
      lit_1 lit_3 lit_1_5 lit_1_43 mul_1_5_1_43 add_2_145_1 lt_3_3_145)

lemma standard_fare_1_8:
  "distanceMiles r = double_of_real (9 / 5) \<Longrightarrow>
   StandardRide_fare r = Double False 1024 3828059683264922"
  by (simp add: StandardRide_fare_def Let_def dmax_def
      lit_1 lit_3 lit_1_5 lit_1_8 mul_1_5_1_8 add_2_7_1 lt_3_3_7)

lemma three_rides_created:
  "fst (create_all three_rides initial_world) = [Some 0, Some 1, Some 2]"
  "deref (snd (create_all three_rides initial_world)) (Some 0) =
     Some (StandardRide_object
       \<lparr>rideID = 1, pickupLocation = ''Downtown'', dropoffLocation = ''Airport'',
        distanceMiles = double_of_real (123 / 100)\<rparr>)"
  "deref (snd (create_all three_rides initial_world)) (Some 1) =
     Some (StandardRide_object
       \<lparr>rideID = 2, pickupLocation = ''Home'', dropoffLocation = ''Office'',
        distanceMiles = double_of_real (143 / 100)\<rparr>)"
  "deref (snd (create_all three_rides initial_world)) (Some 2) =
     Some (StandardRide_object
       \<lparr>rideID = 3, pickupLocation = ''Mall'', dropoffLocation = ''University'',
        distanceMiles = double_of_real (9 / 5)\<rparr>)"
  by (simp_all add: three_rides_def initial_world_def make_shared_StandardRide_def
      StandardRide_ctor_def Ride_ctor_def allocate_def deref_def)

lemma demo_rides_created:
  "fst (create_all demo_rides initial_world) = [Some 0, Some 1, Some 2, Some 3]"
  "heap (snd (create_all demo_rides initial_world)) 0 =
     Some \<lparr>object = StandardRide_object
       \<lparr>rideID = 1, pickupLocation = ''Downtown'', dropoffLocation = ''Airport'',
        distanceMiles = double_of_real (92 / 5)\<rparr>, use_count = 1\<rparr>"
  "heap (snd (create_all demo_rides initial_world)) 2 =
     Some \<lparr>object = StandardRide_object
       \<lparr>rideID = 3, pickupLocation = ''Home'', dropoffLocation = ''Office'',
        distanceMiles = double_of_real (9 / 2)\<rparr>, use_count = 1\<rparr>"
  by (simp_all add: demo_rides_def initial_world_def make_shared_StandardRide_def
      make_shared_PremiumRide_def StandardRide_ctor_def PremiumRide_ctor_def Ride_ctor_def
      allocate_def)

section \<open>Drivers\<close>

text \<open>
  C7. \<^verbatim>\<open>addRide\<close> puts the given pointer at the end of \<^verbatim>\<open>assignedRides\<close> and changes nothing
  else of the vector: no pointer is left out because it is already there, and no number of
  rides is refused. After any sequence of \<^verbatim>\<open>addRide\<close> calls the vector is the old one followed
  by the pointers added, in order, and \<^verbatim>\<open>getAssignedCount()\<close> has grown by the number of
  calls; on a new driver, or after \<^verbatim>\<open>clearAssignedRides()\<close>, it is the number of calls.
\<close>

theorem addRide_appends:
  "assignedRides (fst (addRide d ride w)) = assignedRides d @ [ride] \<and>
   getAssignedCount (fst (addRide d ride w)) = getAssignedCount d + 1 \<and>
   assignedRides (fst (addRides d rides w)) = assignedRides d @ rides \<and>
   getAssignedCount (fst (addRides d rides w)) = getAssignedCount d + length rides \<and>
   getAssignedCount (fst (addRides (Driver_ctor ident n r) rides w)) = length rides \<and>
   getAssignedCount (fst (addRides (fst (clearAssignedRides d w0)) rides w)) = length rides"
  by (simp add: addRides_assigned getAssignedCount_def addRide_def Driver_ctor_def
      clearAssignedRides_def)

theorem addRide_appends_witness:
  "getAssignedCount
     (fst (addRides (Driver_ctor 101 ''Aisha Khan'' None) [Some 0, Some 2, Some 0, None]
        (snd (create_all demo_rides initial_world)))) = 4"
  using addRide_appends [where ident = 101 and n = "''Aisha Khan''" and r = None
      and rides = "[Some 0, Some 2, Some 0, None]"
      and w = "snd (create_all demo_rides initial_world)",
      THEN conjunct2, THEN conjunct2, THEN conjunct2, THEN conjunct2, THEN conjunct1]
  by (simp del: addRides.simps)

text \<open>
  C8, as the claim states it, fails for a ride that only the driver holds: \<^verbatim>\<open>main\<close> creates a
  ride, hands it to the driver and drops its own pointer; \<^verbatim>\<open>clearAssignedRides()\<close> then
  destroys the last \<^verbatim>\<open>shared_ptr\<close> and with it the ride, which keeps nothing.
\<close>

theorem clearAssignedRides_sole_owner_counterexample:
  "(let (p, w1) = make_shared_StandardRide ''Downtown'' ''Airport'' (double_of_real (184 / 10))
                    initial_world;
        (d1, w2) = addRide (Driver_ctor 101 ''Aisha Khan'' None) p w1;
        w3 = destroy_ptr p w2;
        (d2, w4) = clearAssignedRides d1 w3
    in assignedRides d1 = [p] \<and> id_of w3 p = Some 1 \<and> id_of w4 p = None)"
  by (simp add: make_shared_StandardRide_def StandardRide_ctor_def Ride_ctor_def allocate_def
      initial_world_def addRide_def Driver_ctor_def copy_ptr_def destroy_ptr_def
      clearAssignedRides_def id_of_def deref_def getRideID_def)

text \<open>
  C8, amended. After \<^verbatim>\<open>clearAssignedRides()\<close>, \<^verbatim>\<open>getAssignedCount()\<close> is 0 and the ID counter is
  unchanged; no ride is modified (every object still in the store is the object that was
  there); and every ride that has an owner besides the cleared vector (its use count exceeds
  the number of times the vector holds it) is still in the store, unchanged, with its id,
  pickup, dropoff, distance and fare, its use count lowered by that number. A ride whose
  only owners were in the vector (it is in the vector, and its use count is no more than
  the number of times the vector holds it) is destroyed: its cell is gone from the store.
  A ride that is not in the vector keeps its cell as it is, use count included.
\<close>

theorem clearAssignedRides_frame:
  "getAssignedCount (fst (clearAssignedRides d w)) = 0 \<and>
   nextID (snd (clearAssignedRides d w)) = nextID w \<and>
   (\<forall>a c'. heap (snd (clearAssignedRides d w)) a = Some c' \<longrightarrow>
      (\<exists>c. heap w a = Some c \<and> object c' = object c)) \<and>
   (\<forall>a c. heap w a = Some c \<and> count_list (assignedRides d) (Some a) < use_count c \<longrightarrow>
      deref (snd (clearAssignedRides d w)) (Some a) = Some (object c) \<and>
      map_option use_count (heap (snd (clearAssignedRides d w)) a) =
        Some (use_count c - count_list (assignedRides d) (Some a))) \<and>
   (\<forall>a c. heap w a = Some c \<and> Some a \<in> set (assignedRides d) \<and>
      use_count c \<le> count_list (assignedRides d) (Some a) \<longrightarrow>
      heap (snd (clearAssignedRides d w)) a = None \<and>
      deref (snd (clearAssignedRides d w)) (Some a) = None) \<and>
   (\<forall>a. Some a \<notin> set (assignedRides d) \<longrightarrow>
      heap (snd (clearAssignedRides d w)) a = heap w a)"
proof -
  have in_set: "Some a \<in> set rs \<longleftrightarrow> 0 < count_list rs (Some a)" for a and rs :: "ride_ptr list"
    using count_list_0_iff [of rs "Some a"] by auto
  show ?thesis
    by (auto simp add: clearAssignedRides_def getAssignedCount_def fold_destroy_fields
        fold_destroy_heap deref_def in_set split: option.splits if_splits)
qed

theorem clearAssignedRides_frame_witness:
  "(let (ps, w0) = create_all demo_rides initial_world;
        (d1, w1) = addRides (Driver_ctor 101 ''Aisha Khan'' (Some (double_of_real (492 / 100))))
                     [ps ! 0, ps ! 2] w0;
        w2 = destroy_ptr (ps ! 2) w1;
        (d2, w3) = clearAssignedRides d1 w2
    in getAssignedCount d1 = 2 \<and> getAssignedCount d2 = 0 \<and>
       id_of w2 (ps ! 0) = Some 1 \<and> deref w3 (ps ! 0) = deref w2 (ps ! 0) \<and>
       map_option use_count (heap w2 0) = Some 2 \<and>
       map_option use_count (heap w3 0) = Some 1 \<and>
       id_of w2 (ps ! 2) = Some 3 \<and>
       map_option use_count (heap w2 2) = Some 1 \<and>
       heap w3 2 = None \<and> id_of w3 (ps ! 2) = None \<and>
       heap w3 1 = heap w2 1)"
proof -
  define w0 where "w0 = snd (create_all demo_rides initial_world)"
  define A where
    "A = addRides (Driver_ctor 101 ''Aisha Khan'' (Some (double_of_real (492 / 100))))
           [Some 0, Some 2] w0"
  define w2 where "w2 = destroy_ptr (Some 2) (snd A)"
  define c where "c = \<lparr>object = StandardRide_object
       \<lparr>rideID = 1, pickupLocation = ''Downtown'', dropoffLocation = ''Airport'',
        distanceMiles = double_of_real (92 / 5)\<rparr>, use_count = 2\<rparr>"
  define c3 where "c3 = \<lparr>object = StandardRide_object
       \<lparr>rideID = 3, pickupLocation = ''Home'', dropoffLocation = ''Office'',
        distanceMiles = double_of_real (9 / 2)\<rparr>, use_count = 1\<rparr>"
  have dA: "assignedRides (fst A) = [Some 0, Some 2]"
    by (simp add: A_def addRides_assigned Driver_ctor_def del: addRides.simps)
  have h0: "heap w2 0 = Some c"
    by (simp add: w2_def destroy_ptr_heap A_def heap_addRides
        demo_rides_created(2) [folded w0_def] c_def del: addRides.simps)
  have h2: "heap w2 2 = Some c3"
    by (simp add: w2_def destroy_ptr_heap A_def heap_addRides
        demo_rides_created(3) [folded w0_def] c3_def del: addRides.simps)
  have less: "count_list (assignedRides (fst A)) (Some 0) < use_count c"
    by (simp add: dA c_def)
  have sole: "Some 2 \<in> set (assignedRides (fst A))"
    "use_count c3 \<le> count_list (assignedRides (fst A)) (Some 2)"
    by (simp_all add: dA c3_def)
  have out: "Some 1 \<notin> set (assignedRides (fst A))"
    by (simp add: dA)
  note F = clearAssignedRides_frame [of "fst A" w2]
  from F have n: "getAssignedCount (fst (clearAssignedRides (fst A) w2)) = 0"
    by simp
  from F h0 less
  have k: "deref (snd (clearAssignedRides (fst A) w2)) (Some 0) = Some (object c)"
    and u: "map_option use_count (heap (snd (clearAssignedRides (fst A) w2)) 0) =
      Some (use_count c - count_list (assignedRides (fst A)) (Some 0))"
    by blast+
  from F h2 sole
  have gone: "heap (snd (clearAssignedRides (fst A) w2)) 2 = None"
    and gone': "deref (snd (clearAssignedRides (fst A) w2)) (Some 2) = None"
    by blast+
  from F out
  have same: "heap (snd (clearAssignedRides (fst A) w2)) (Suc 0) = heap w2 (Suc 0)"
    by (metis One_nat_def)
  have d0: "deref w2 (Some 0) = Some (object c)" by (simp add: deref_def h0)
  have i0: "id_of w2 (Some 0) = Some 1"
    by (simp add: id_of_def d0 c_def getRideID_def)
  have i2: "id_of w2 (Some 2) = Some 3"
    by (simp add: id_of_def deref_def h2 c3_def getRideID_def)
  have g2: "id_of (snd (clearAssignedRides (fst A) w2)) (Some 2) = None"
    by (simp add: id_of_def gone')
  show ?thesis
    using n k u d0 i0 h0 h2 dA gone g2 same i2
    by (simp add: split_def Let_def demo_rides_created(1) w0_def A_def w2_def
        getAssignedCount_def c_def c3_def del: addRides.simps)
qed

text \<open>
  C6, as the claim states it, fails on the order: two drivers hold the same three rides
  (fares 3.0, 3.145 and 3.7), one in the reverse order of the other. Their totals are two
  different \<^verbatim>\<open>double\<close>s, one below 9.845 and one above it, so that the summaries, which show
  two decimals, print 9.84 for one driver and 9.85 for the other.
\<close>

theorem totalEarnings_order_counterexample:
  "(let (ps, w0) = create_all three_rides initial_world;
        (dA, w1) = addRides (Driver_ctor 101 ''Aisha Khan'' None) ps w0;
        (dB, w2) = addRides (Driver_ctor 102 ''Carlos Mendez'' None) (rev ps) w1
    in map_option totalEarnings (getDriverInfo dA w2) =
         Some (Double False 1026 1038642664062320) \<and>
       map_option totalEarnings (getDriverInfo dB w2) =
         Some (Double False 1026 1038642664062321) \<and>
       valof (Double False 1026 1038642664062320) < 9845 / 1000 \<and>
       9845 / 1000 < valof (Double False 1026 1038642664062321))"
proof -
  define w0 where "w0 = snd (create_all three_rides initial_world)"
  define ps :: "ride_ptr list" where "ps = [Some 0, Some 1, Some 2]"
  define A where "A = addRides (Driver_ctor 101 ''Aisha Khan'' None) ps w0"
  define B where "B = addRides (Driver_ctor 102 ''Carlos Mendez'' None) (rev ps) (snd A)"
  have dA: "assignedRides (fst A) = ps"
    by (simp add: A_def addRides_assigned Driver_ctor_def)
  have dB: "assignedRides (fst B) = rev ps"
    by (simp add: B_def addRides_assigned Driver_ctor_def)
  have dr: "deref (snd B) q = deref w0 q" for q
    by (simp add: A_def B_def deref_addRides)
  note objs = three_rides_created(2-4) [folded w0_def, unfolded One_nat_def]
  have valid: "\<forall>p\<in>set ps. valid_ptr (snd B) p"
    by (simp add: ps_def valid_ptr_deref dr objs)
  then have validA: "\<forall>p\<in>set (assignedRides (fst A)). valid_ptr (snd B) p"
    and validB: "\<forall>p\<in>set (assignedRides (fst B)). valid_ptr (snd B) p"
    by (simp_all add: dA dB)
  have z: "dadd (double_of_real 0) (Double False 1024 2251799813685248) =
      Double False 1024 2251799813685248"
    "dadd (double_of_real 0) (Double False 1024 3828059683264922) =
      Double False 1024 3828059683264922"
    by (simp_all add: dadd_zero_left)
  have tA: "map_option totalEarnings (getDriverInfo (fst A) (snd B)) =
      Some (Double False 1026 1038642664062320)"
    by (simp add: getDriverInfo_valid [OF validA] dA ps_def dr objs
        standard_fare_1_23 standard_fare_1_43 standard_fare_1_8 z
        add_3_3_145 add_6_145_3_7)
  have tB: "map_option totalEarnings (getDriverInfo (fst B) (snd B)) =
      Some (Double False 1026 1038642664062321)"
    by (simp add: getDriverInfo_valid [OF validB] dB ps_def dr objs
        standard_fare_1_23 standard_fare_1_43 standard_fare_1_8 z
        add_3_7_3_145 add_6_845_3)
  have v: "valof (Double False 1026 1038642664062320) < 9845 / 1000"
    "9845 / 1000 < valof (Double False 1026 1038642664062321)"
    by (simp_all add: valof_def magnitude_def pow2_def)
  show ?thesis
    using tA tB v
    by (simp add: split_def Let_def three_rides_created(1) w0_def A_def B_def ps_def
        del: addRides.simps)
qed

text \<open>
  C6, amended. When every non-null pointer of \<^verbatim>\<open>assignedRides\<close> points to a ride,
  \<^verbatim>\<open>getDriverInfo()\<close> prints the number of pointers, one line per non-null pointer, and a total
  that is computed anew from the vector on each call: the \<^verbatim>\<open>double\<close> sum, accumulated from
  \<^verbatim>\<open>0.0\<close> in the order of the vector, of \<^verbatim>\<open>fare()\<close> over the rides that the non-null pointers
  point to. Null pointers are skipped. The sum of \<^verbatim>\<open>double\<close>s depends on the order.
\<close>

theorem totalEarnings_is_left_fold:
  assumes "\<forall>p\<in>set (assignedRides d). valid_ptr w p"
  shows "getDriverInfo d w =
     Some \<lparr>header_id = driverID d, header_name = name d, header_rating = rating d,
           header_count = length (assignedRides d),
           details = map rideDetails (List.map_filter (deref w) (assignedRides d)),
           totalEarnings =
             foldl dadd (double_of_real 0)
               (map fare (List.map_filter (deref w) (assignedRides d)))\<rparr>"
  using assms by (rule getDriverInfo_valid)

theorem totalEarnings_is_left_fold_witness:
  "(let (ps, w0) = create_all demo_rides initial_world;
        (d1, w1) = addRides (Driver_ctor 101 ''Aisha Khan'' (Some (double_of_real (492 / 100))))
                     [ps ! 0, ps ! 2] w0
    in list_all (valid_ptr w1) (assignedRides d1) \<and>
       map_option totalEarnings (getDriverInfo d1 w1) =
         Some (Double False 1028 612208074345676))"
proof -
  define w0 where "w0 = snd (create_all demo_rides initial_world)"
  define A where
    "A = addRides (Driver_ctor 101 ''Aisha Khan'' (Some (double_of_real (492 / 100))))
           [Some 0, Some 2] w0"
  have dA: "assignedRides (fst A) = [Some 0, Some 2]"
    by (simp add: A_def addRides_assigned Driver_ctor_def del: addRides.simps)
  have dr: "deref (snd A) q = deref w0 q" for q
    by (simp add: A_def deref_addRides del: addRides.simps)
  note cells = demo_rides_created(2-3) [folded w0_def]
  have objs:
    "deref w0 (Some 0) = Some (StandardRide_object
       \<lparr>rideID = 1, pickupLocation = ''Downtown'', dropoffLocation = ''Airport'',
        distanceMiles = double_of_real (92 / 5)\<rparr>)"
    "deref w0 (Some 2) = Some (StandardRide_object
       \<lparr>rideID = 3, pickupLocation = ''Home'', dropoffLocation = ''Office'',
        distanceMiles = double_of_real (9 / 2)\<rparr>)"
    by (simp_all add: deref_def cells)
  have valid: "\<forall>p\<in>set (assignedRides (fst A)). valid_ptr (snd A) p"
    by (simp add: dA valid_ptr_deref dr objs)
  have z: "dadd (double_of_real 0) (Double False 1027 3546584706554265) =
      Double False 1027 3546584706554265"
    by (simp add: dadd_zero_left)
  have "map_option totalEarnings (getDriverInfo (fst A) (snd A)) =
      Some (Double False 1028 612208074345676)"
    by (simp add: totalEarnings_is_left_fold [OF valid] dA dr objs
        standard_fare_18_4 standard_fare_4_5 z add_28_6_7_75)
  moreover have "list_all (valid_ptr (snd A)) (assignedRides (fst A))"
    using valid by (simp add: list_all_iff)
  ultimately show ?thesis
    by (simp add: split_def Let_def demo_rides_created(1) w0_def A_def del: addRides.simps)
qed

text \<open>
  C10. Adding a null pointer raises \<^verbatim>\<open>getAssignedCount()\<close> and the count in the header of
  \<^verbatim>\<open>getDriverInfo()\<close> by one and changes neither the lines printed nor the total (nor the
  store). In any summary the count is the number of lines printed plus the number of null
  pointers in the vector, so with a null pointer the count exceeds the number of rides that
  are shown and summed.
\<close>

theorem null_ride_counted_not_summed:
  "getAssignedCount (fst (addRide d None w)) = getAssignedCount d + 1 \<and>
   snd (addRide d None w) = w \<and>
   getDriverInfo (fst (addRide d None w)) w =
     map_option (\<lambda>info. info\<lparr>header_count := header_count info + 1\<rparr>) (getDriverInfo d w) \<and>
   map_option (\<lambda>info. length (details info) + count_list (assignedRides d) None)
     (getDriverInfo d w) =
     map_option header_count (getDriverInfo d w)"
proof -
  have A: "getDriverInfo (fst (addRide d None w)) w =
     map_option (\<lambda>info. info\<lparr>header_count := header_count info + 1\<rparr>) (getDriverInfo d w)"
    by (simp add: getDriverInfo_def addRide_def summary_loop_append_null
        split: option.split prod.split)
  have B: "map_option (\<lambda>info. length (details info) + count_list (assignedRides d) None)
     (getDriverInfo d w) = map_option header_count (getDriverInfo d w)"
  proof (cases "summary_loop (assignedRides d) w ([], double_of_real 0)")
    case None
    then show ?thesis by (simp add: getDriverInfo_def)
  next
    case (Some r)
    obtain printed earnings where r: "r = (printed, earnings)" by (cases r)
    from summary_loop_length [OF Some [unfolded r]]
    have "length printed = length (filter (\<lambda>p. p \<noteq> None) (assignedRides d))" by simp
    then have "length printed + count_list (assignedRides d) None = length (assignedRides d)"
      using length_without_nulls [of "assignedRides d"] by simp
    then show ?thesis by (simp add: getDriverInfo_def Some r)
  qed
  from A B show ?thesis
    by (simp add: addRide_def getAssignedCount_def copy_ptr_def)
qed

theorem null_ride_counted_not_summed_witness:
  "(let (ps, w0) = create_all demo_rides initial_world;
        (d1, w1) = addRides (Driver_ctor 101 ''Aisha Khan'' None) [ps ! 0, None] w0
    in getAssignedCount d1 = 2 \<and>
       map_option header_count (getDriverInfo d1 w1) = Some 2 \<and>
       map_option (\<lambda>info. length (details info)) (getDriverInfo d1 w1) = Some 1 \<and>
       map_option totalEarnings (getDriverInfo d1 w1) =
         Some (Double False 1027 3546584706554265))"
proof -
  define w0 where "w0 = snd (create_all demo_rides initial_world)"
  define A where "A = addRide (Driver_ctor 101 ''Aisha Khan'' None) (Some 0) w0"
  define B where "B = addRide (fst A) None (snd A)"
  have AB: "addRides (Driver_ctor 101 ''Aisha Khan'' None) [Some 0, None] w0 = B"
    by (simp add: A_def B_def split_def Let_def)
  have dA: "assignedRides (fst A) = [Some 0]"
    by (simp add: A_def addRide_def Driver_ctor_def)
  have obj: "deref (snd A) (Some 0) = Some (StandardRide_object
       \<lparr>rideID = 1, pickupLocation = ''Downtown'', dropoffLocation = ''Airport'',
        distanceMiles = double_of_real (92 / 5)\<rparr>)"
  proof -
    have "deref (snd A) (Some 0) = deref w0 (Some 0)"
      by (simp add: A_def addRide_def deref_copy_ptr)
    then show ?thesis
      by (simp add: deref_def demo_rides_created(2) [folded w0_def])
  qed
  have valid: "\<forall>p\<in>set (assignedRides (fst A)). valid_ptr (snd A) p"
    by (simp add: dA valid_ptr_deref obj)
  have z: "dadd (double_of_real 0) (Double False 1027 3546584706554265) =
      Double False 1027 3546584706554265"
    by (simp add: dadd_zero_left)
  note G = getDriverInfo_valid [OF valid]
  note N = null_ride_counted_not_summed [of "fst A" "snd A"]
  from N have sB: "snd B = snd A" and cB: "getAssignedCount (fst B) = getAssignedCount (fst A) + 1"
    and gB: "getDriverInfo (fst B) (snd A) =
      map_option (\<lambda>info. info\<lparr>header_count := header_count info + 1\<rparr>)
        (getDriverInfo (fst A) (snd A))"
    by (simp_all add: B_def)
  have "getAssignedCount (fst B) = 2"
    using cB by (simp add: getAssignedCount_def dA)
  moreover have "map_option header_count (getDriverInfo (fst B) (snd B)) = Some 2"
    by (simp add: sB gB G dA)
  moreover have
    "map_option (\<lambda>info. length (details info)) (getDriverInfo (fst B) (snd B)) = Some 1"
    by (simp add: sB gB G dA obj)
  moreover have "map_option totalEarnings (getDriverInfo (fst B) (snd B)) =
      Some (Double False 1027 3546584706554265)"
    by (simp add: sB gB G dA obj standard_fare_18_4 z)
  ultimately show ?thesis
    unfolding Let_def split_def demo_rides_created(1) w0_def [symmetric]
    by (simp add: AB del: addRides.simps)
qed

end
